theory Spec2Isabelle
  imports Main
begin

section \<open>Text: characters and the string operations of the source\<close>

text \<open>
  A Python \<open>str\<close> is modelled as an Isabelle \<open>string\<close>; a \<open>char\<close> stands for the
  Unicode code point with the same number, so the texts of the model are the texts over
  the code points 0 to 255. On these, the predicates below are those of Python 3:
  \<open>str.isspace\<close> (also the class \<open>\s\<close> and what \<open>strip\<close> and \<open>split\<close> remove),
  \<open>str.isdigit\<close>, the class \<open>\d\<close>, the class \<open>\w\<close>, and \<open>str.lower\<close>.
\<close>

definition is_space :: "char \<Rightarrow> bool" where
  "is_space c =
     (let n = (of_char c :: nat)
      in (9 \<le> n \<and> n \<le> 13) \<or> (28 \<le> n \<and> n \<le> 32) \<or> n = 133 \<or> n = 160)"

definition is_decimal :: "char \<Rightarrow> bool" where
  "is_decimal c = (let n = (of_char c :: nat) in 48 \<le> n \<and> n \<le> 57)"

definition isdigit :: "char \<Rightarrow> bool" where
  "isdigit c = (let n = (of_char c :: nat) in (48 \<le> n \<and> n \<le> 57) \<or> n = 178 \<or> n = 179 \<or> n = 185)"

definition is_word :: "char \<Rightarrow> bool" where
  "is_word c =
     (let n = (of_char c :: nat)
      in (48 \<le> n \<and> n \<le> 57) \<or> (65 \<le> n \<and> n \<le> 90) \<or> n = 95 \<or> (97 \<le> n \<and> n \<le> 122)
         \<or> n = 170 \<or> n = 178 \<or> n = 179 \<or> n = 181 \<or> n = 185 \<or> n = 186
         \<or> (188 \<le> n \<and> n \<le> 190) \<or> (192 \<le> n \<and> n \<le> 214) \<or> (216 \<le> n \<and> n \<le> 246)
         \<or> (248 \<le> n \<and> n \<le> 255))"

definition lower_char :: "char \<Rightarrow> char" where
  "lower_char c =
     (let n = (of_char c :: nat)
      in if (65 \<le> n \<and> n \<le> 90) \<or> (192 \<le> n \<and> n \<le> 222 \<and> n \<noteq> 215)
         then char_of (n + 32) else c)"

definition lower :: "string \<Rightarrow> string" where
  "lower s = map lower_char s"

text \<open>\<open>s.startswith(p)\<close> and the substring test \<open>sub in s\<close>.\<close>

fun startswith :: "string \<Rightarrow> string \<Rightarrow> bool" where
  "startswith s [] = True"
| "startswith [] (p # ps) = False"
| "startswith (c # cs) (p # ps) = (c = p \<and> startswith cs ps)"

fun str_in :: "string \<Rightarrow> string \<Rightarrow> bool" where
  "str_in sub [] = (sub = [])"
| "str_in sub (c # cs) = (startswith (c # cs) sub \<or> str_in sub cs)"

text \<open>\<open>sep.join(xs)\<close>.\<close>

fun join :: "string \<Rightarrow> string list \<Rightarrow> string" where
  "join sep [] = []"
| "join sep [x] = x"
| "join sep (x # y # ys) = x @ sep @ join sep (y # ys)"

section \<open>The resume document\<close>

text \<open>
  A dictionary from strings to strings is an association list in insertion order.
  \<open>d.get(k, default)\<close> is \<open>dict_get\<close>; \<open>d[k] = v\<close> is \<open>dict_set\<close>, which keeps the place
  of a key that is already there and appends a new one.

  The resume document is the dictionary with the keys \<open>personal_info\<close>, \<open>education\<close>,
  \<open>work_experience\<close>, \<open>skills\<close>, \<open>projects\<close> and \<open>raw_text\<close>; each key has the type of
  value the parser stores under it, and \<open>None\<close> is a key that is not in the dictionary.
\<close>

type_synonym pydict = "(string \<times> string) list"

definition dict_get :: "pydict \<Rightarrow> string \<Rightarrow> string \<Rightarrow> string" where
  "dict_get d k dflt = (case map_of d k of None \<Rightarrow> dflt | Some v \<Rightarrow> v)"

fun dict_set :: "pydict \<Rightarrow> string \<Rightarrow> string \<Rightarrow> pydict" where
  "dict_set [] k v = [(k, v)]"
| "dict_set ((k', v') # d) k v = (if k' = k then (k, v) # d else (k', v') # dict_set d k v)"

record resume_data =
  personal_info :: "pydict option"
  education :: "pydict list option"
  work_experience :: "pydict list option"
  skills :: "string list option"
  projects :: "pydict list option"
  raw_text :: "string option"

text \<open>\<open>resume_data.get(key, default)\<close> for one of the six keys.\<close>

definition get_key :: "'a option \<Rightarrow> 'a \<Rightarrow> 'a" where
  "get_key v dflt = (case v of None \<Rightarrow> dflt | Some x \<Rightarrow> x)"

section \<open>\<open>ai_expansion.py\<close>: the classifier and the direct resolver\<close>

definition abstract_keywords :: "string list" where
  "abstract_keywords =
     [''why'', ''describe'', ''explain'', ''tell us'', ''what motivates'', ''your greatest'',
      ''how would you'', ''what interests you'', ''your goals'', ''your passion'',
      ''cover letter'', ''personal statement'', ''objective'', ''summary'']"

definition is_abstract_question :: "string \<Rightarrow> string \<Rightarrow> bool" where
  "is_abstract_question question field_type =
     (let question_lower = lower question
      in if field_type = ''textarea'' \<or> length question > 50 then True
         else list_ex (\<lambda>keyword. str_in keyword question_lower) abstract_keywords)"

text \<open>
  \<open>get_direct_answer\<close> is a sequence of \<open>if\<close> statements. The first five return whenever
  their keyword is found. The next four return only inside a second test (the list is not
  empty); when that test fails, control falls to the statement after. Each statement is one
  function below, from the last to the first, and each names the statement that follows it.
\<close>

definition answer_skill :: "string \<Rightarrow> resume_data \<Rightarrow> string option" where
  "answer_skill question_lower r =
     (if str_in ''skill'' question_lower
      then Some (join '', '' (take 5 (get_key (skills r) [])))
      else None)"

definition answer_position :: "string \<Rightarrow> resume_data \<Rightarrow> string option" where
  "answer_position question_lower r =
     (if str_in ''position'' question_lower \<or> str_in ''title'' question_lower
      then (case get_key (work_experience r) [] of
              e # _ \<Rightarrow> Some (dict_get e ''position'' [])
            | [] \<Rightarrow> answer_skill question_lower r)
      else answer_skill question_lower r)"

definition answer_company :: "string \<Rightarrow> resume_data \<Rightarrow> string option" where
  "answer_company question_lower r =
     (if str_in ''company'' question_lower \<or> str_in ''employer'' question_lower
      then (case get_key (work_experience r) [] of
              e # _ \<Rightarrow> Some (dict_get e ''company'' [])
            | [] \<Rightarrow> answer_position question_lower r)
      else answer_position question_lower r)"

definition answer_degree :: "string \<Rightarrow> resume_data \<Rightarrow> string option" where
  "answer_degree question_lower r =
     (if str_in ''degree'' question_lower
      then (case get_key (education r) [] of
              e # _ \<Rightarrow> Some (dict_get e ''degree'' [])
            | [] \<Rightarrow> answer_company question_lower r)
      else answer_company question_lower r)"

definition answer_university :: "string \<Rightarrow> resume_data \<Rightarrow> string option" where
  "answer_university question_lower r =
     (if str_in ''university'' question_lower \<or> str_in ''school'' question_lower
      then (case get_key (education r) [] of
              e # _ \<Rightarrow> Some (dict_get e ''institution'' [])
            | [] \<Rightarrow> answer_degree question_lower r)
      else answer_degree question_lower r)"

definition get_direct_answer :: "string \<Rightarrow> resume_data \<Rightarrow> string option" where
  "get_direct_answer question r =
     (let question_lower = lower question;
          pinfo = get_key (personal_info r) []
      in if str_in ''name'' question_lower \<or> str_in ''full name'' question_lower
           then Some (dict_get pinfo ''name'' [])
         else if str_in ''email'' question_lower then Some (dict_get pinfo ''email'' [])
         else if str_in ''phone'' question_lower then Some (dict_get pinfo ''phone'' [])
         else if str_in ''linkedin'' question_lower then Some (dict_get pinfo ''linkedin'' [])
         else if str_in ''github'' question_lower then Some (dict_get pinfo ''github'' [])
         else answer_university question_lower r)"

section \<open>Regular expressions\<close>

text \<open>
  The patterns of \<open>resume_parser.py\<close> use literals, character classes, \<open>\b\<close>,
  concatenation, alternation and greedy repetition of a single class. A class is a list of
  atoms (a bracket expression lists several). \<open>LitI\<close> is a literal of a pattern that is
  searched with \<open>re.IGNORECASE\<close>.
\<close>

datatype atom = Lit char | LitI char | Rng char char | Dig | Spc | Wrd

datatype re = Eps | Bnd | Chr "atom list" | Star "atom list" | Seq re re | Alt re re

fun atom_has :: "atom \<Rightarrow> char \<Rightarrow> bool" where
  "atom_has (Lit l) c = (c = l)"
| "atom_has (LitI l) c = (lower_char c = lower_char l)"
| "atom_has (Rng lo hi) c = ((of_char lo :: nat) \<le> of_char c \<and> (of_char c :: nat) \<le> of_char hi)"
| "atom_has Dig c = is_decimal c"
| "atom_has Spc c = is_space c"
| "atom_has Wrd c = is_word c"

definition in_class :: "atom list \<Rightarrow> char \<Rightarrow> bool" where
  "in_class cls c = list_ex (\<lambda>a. atom_has a c) cls"

text \<open>
  \<open>word_at t k\<close>: there is a word character at index \<open>k\<close> of \<open>t\<close>. \<open>\b\<close> holds at
  position \<open>i\<close> when exactly one of the characters before and after the position is a
  word character; beyond either end of the text there is none.
\<close>

definition word_at :: "string \<Rightarrow> nat \<Rightarrow> bool" where
  "word_at t k = (k < length t \<and> is_word (t ! k))"

definition boundary :: "string \<Rightarrow> nat \<Rightarrow> bool" where
  "boundary t i = ((0 < i \<and> word_at t (i - 1)) \<noteq> word_at t i)"

text \<open>
  \<open>ends r t i\<close> lists the positions where a match of \<open>r\<close> that starts at position \<open>i\<close>
  of \<open>t\<close> can end, in the order in which the backtracking matcher tries them: the left
  alternative before the right one, the longest repetition first.
\<close>

fun ends :: "re \<Rightarrow> string \<Rightarrow> nat \<Rightarrow> nat list" where
  "ends Eps t i = [i]"
| "ends Bnd t i = (if boundary t i then [i] else [])"
| "ends (Chr cls) t i = (if i < length t \<and> in_class cls (t ! i) then [Suc i] else [])"
| "ends (Star cls) t i = rev [i ..< Suc (i + length (takeWhile (in_class cls) (drop i t)))]"
| "ends (Seq a b) t i = concat (map (ends b t) (ends a t i))"
| "ends (Alt a b) t i = ends a t i @ ends b t i"

text \<open>
  \<open>re.search(pattern, text)\<close> followed by \<open>.group()\<close>: the match at the leftmost start
  position that has one, ending where the matcher first succeeds; \<open>None\<close> when no
  position has a match.
\<close>

definition matches_anywhere :: "re \<Rightarrow> string \<Rightarrow> bool" where
  "matches_anywhere r t = list_ex (\<lambda>i. ends r t i \<noteq> []) [0 ..< Suc (length t)]"

definition re_search :: "re \<Rightarrow> string \<Rightarrow> string option" where
  "re_search r t =
     (case List.find (\<lambda>i. ends r t i \<noteq> []) [0 ..< Suc (length t)] of
        None \<Rightarrow> None
      | Some i \<Rightarrow> Some (take (hd (ends r t i) - i) (drop i t)))"

text \<open>Pattern syntax: a sequence, an alternation, a literal string, \<open>c+\<close>.\<close>

definition seqs :: "re list \<Rightarrow> re" where
  "seqs rs = foldr Seq rs Eps"

fun alts :: "re list \<Rightarrow> re" where
  "alts [] = Eps"
| "alts [r] = r"
| "alts (r # r' # rs) = Alt r (alts (r' # rs))"

definition lit :: "string \<Rightarrow> re" where
  "lit s = seqs (map (\<lambda>c. Chr [Lit c]) s)"

definition liti :: "string \<Rightarrow> re" where
  "liti s = seqs (map (\<lambda>c. Chr [LitI c]) s)"

definition plus :: "atom list \<Rightarrow> re" where
  "plus cls = Seq (Chr cls) (Star cls)"

definition digit :: re where
  "digit = Chr [Dig]"

section \<open>\<open>resume_parser.py\<close>: lines and tokens\<close>

text \<open>
  \<open>s.split(sep)\<close> for a separator of one character out of \<open>seps\<close> (also \<open>re.split\<close>
  on a class of single characters): the pieces between separators, empty ones included.
\<close>

fun split_on :: "char list \<Rightarrow> string \<Rightarrow> string list" where
  "split_on seps [] = [[]]"
| "split_on seps (c # cs) =
     (if c \<in> set seps then [] # split_on seps cs
      else (case split_on seps cs of
              piece # pieces \<Rightarrow> (c # piece) # pieces
            | [] \<Rightarrow> [[c]]))"

definition split_lines :: "string \<Rightarrow> string list" where
  "split_lines text = split_on [CHR 0x0A] text"

definition strip :: "string \<Rightarrow> string" where
  "strip s = rev (dropWhile is_space (rev (dropWhile is_space s)))"

text \<open>\<open>s.split()\<close>: the maximal runs of characters that are not whitespace.\<close>

fun split_ws :: "string \<Rightarrow> string \<Rightarrow> string list" where
  "split_ws cur [] = (if cur = [] then [] else [cur])"
| "split_ws cur (c # cs) =
     (if is_space c then (if cur = [] then split_ws [] cs else cur # split_ws [] cs)
      else split_ws (cur @ [c]) cs)"

definition split_tokens :: "string \<Rightarrow> string list" where
  "split_tokens s = split_ws [] s"

text \<open>\<open>any(keyword in line.lower() for keyword in keywords)\<close>.\<close>

definition has_keyword :: "string list \<Rightarrow> string \<Rightarrow> bool" where
  "has_keyword keywords line = list_ex (\<lambda>keyword. str_in keyword (lower line)) keywords"

definition education_keywords :: "string list" where
  "education_keywords =
     [''education'', ''academic'', ''university'', ''college'', ''school'', ''degree'',
      ''bachelor'', ''master'', ''phd'', ''doctorate'']"

definition experience_keywords :: "string list" where
  "experience_keywords =
     [''experience'', ''work'', ''employment'', ''career'', ''professional'', ''job'',
      ''position'', ''role'']"

definition skills_keywords :: "string list" where
  "skills_keywords =
     [''skills'', ''technical'', ''technologies'', ''programming'', ''languages'', ''tools'',
      ''frameworks'']"

definition contact_keywords :: "string list" where
  "contact_keywords = [''contact'', ''phone'', ''email'', ''address'', ''linkedin'', ''github'']"

section \<open>\<open>resume_parser.py\<close>: personal information\<close>

text \<open>
  The name loop of \<open>_extract_personal_info\<close>: each line is stripped and tested; the first
  line that passes both tests is the name and ends the loop.
\<close>

fun find_name :: "string list \<Rightarrow> string option" where
  "find_name [] = None"
| "find_name (l # ls) =
     (let line = strip l
      in if length line > 2 \<and> length (split_tokens line) \<le> 4 \<and> \<not> list_ex isdigit line
         then (if \<not> str_in ''@'' line \<and> \<not> str_in ''phone'' (lower line) then Some line
               else find_name ls)
         else find_name ls)"

definition email_pattern :: re where
  "email_pattern =
     seqs [Bnd,
           plus [Rng (CHR ''A'') (CHR ''Z''), Rng (CHR ''a'') (CHR ''z''), Rng (CHR ''0'') (CHR ''9''),
                 Lit (CHR ''.''), Lit (CHR ''_''), Lit (CHR ''%''), Lit (CHR ''+''), Lit (CHR ''-'')],
           Chr [Lit (CHR ''@'')],
           plus [Rng (CHR ''A'') (CHR ''Z''), Rng (CHR ''a'') (CHR ''z''), Rng (CHR ''0'') (CHR ''9''),
                 Lit (CHR ''.''), Lit (CHR ''-'')],
           Chr [Lit (CHR ''.'')],
           Chr [Rng (CHR ''A'') (CHR ''Z''), Lit (CHR ''|''), Rng (CHR ''a'') (CHR ''z'')],
           Chr [Rng (CHR ''A'') (CHR ''Z''), Lit (CHR ''|''), Rng (CHR ''a'') (CHR ''z'')],
           Star [Rng (CHR ''A'') (CHR ''Z''), Lit (CHR ''|''), Rng (CHR ''a'') (CHR ''z'')],
           Bnd]"

text \<open>
  The three phone patterns, in the order of the list \<open>phone_patterns\<close>:
  \<^verbatim>\<open>\b\d{3}-\d{3}-\d{4}\b\<close>, \<^verbatim>\<open>\b\(\d{3}\)\s*\d{3}-\d{4}\b\<close> and \<^verbatim>\<open>\b\d{10}\b\<close>.
\<close>

definition phone_dashed :: re where
  "phone_dashed =
     seqs [Bnd, digit, digit, digit, Chr [Lit (CHR ''-'')], digit, digit, digit,
           Chr [Lit (CHR ''-'')], digit, digit, digit, digit, Bnd]"

definition phone_parens :: re where
  "phone_parens =
     seqs [Bnd, Chr [Lit (CHR ''('')], digit, digit, digit, Chr [Lit (CHR '')'')], Star [Spc],
           digit, digit, digit, Chr [Lit (CHR ''-'')], digit, digit, digit, digit, Bnd]"

definition phone_ten_digits :: re where
  "phone_ten_digits =
     seqs [Bnd, digit, digit, digit, digit, digit, digit, digit, digit, digit, digit, Bnd]"

definition phone_patterns :: "re list" where
  "phone_patterns = [phone_dashed, phone_parens, phone_ten_digits]"

text \<open>The phone loop: the patterns in order, \<open>break\<close> at the first one that matches.\<close>

fun search_phone :: "re list \<Rightarrow> string \<Rightarrow> string option" where
  "search_phone [] text = None"
| "search_phone (pattern # patterns) text =
     (case re_search pattern text of
        Some phone_match \<Rightarrow> Some phone_match
      | None \<Rightarrow> search_phone patterns text)"

definition linkedin_pattern :: re where
  "linkedin_pattern = Seq (liti ''linkedin.com/in/'') (plus [Wrd, LitI (CHR ''-'')])"

definition github_pattern :: re where
  "github_pattern = Seq (liti ''github.com/'') (plus [Wrd, LitI (CHR ''-'')])"

text \<open>\<open>if m: personal_info[key] = m.group()\<close>.\<close>

definition set_if_found :: "pydict \<Rightarrow> string \<Rightarrow> string option \<Rightarrow> pydict" where
  "set_if_found d k m = (case m of None \<Rightarrow> d | Some v \<Rightarrow> dict_set d k v)"

definition extract_personal_info :: "string \<Rightarrow> pydict" where
  "extract_personal_info text =
     (let info0 = [];
          info1 = set_if_found info0 ''name'' (find_name (take 5 (split_lines text)));
          info2 = set_if_found info1 ''email'' (re_search email_pattern text);
          info3 = set_if_found info2 ''phone'' (search_phone phone_patterns text);
          info4 = set_if_found info3 ''linkedin'' (re_search linkedin_pattern text);
          info5 = set_if_found info4 ''github'' (re_search github_pattern text)
      in info5)"

section \<open>\<open>resume_parser.py\<close>: section capture\<close>

text \<open>
  The four extractors start with the same loop over the stripped lines of the text; they
  differ in the keywords that open the section (\<open>own\<close>) and in the keywords that end it
  (\<open>stops\<close>). A line with a keyword of \<open>own\<close> sets the flag and is skipped
  (\<open>continue\<close>). With the flag set, a line with a keyword of \<open>stops\<close> ends the loop
  (\<open>break\<close>), and any other line that is not empty is appended.
\<close>

fun section_lines :: "string list \<Rightarrow> string list \<Rightarrow> bool \<Rightarrow> string list \<Rightarrow> string list" where
  "section_lines own stops in_section [] = []"
| "section_lines own stops in_section (l # ls) =
     (let line = strip l
      in if has_keyword own line then section_lines own stops True ls
         else if in_section
              then (if has_keyword stops line then []
                    else if line \<noteq> [] then line # section_lines own stops True ls
                    else section_lines own stops True ls)
              else section_lines own stops False ls)"

definition education_lines :: "string \<Rightarrow> string list" where
  "education_lines text =
     section_lines education_keywords (experience_keywords @ skills_keywords) False
       (split_lines text)"

definition experience_lines :: "string \<Rightarrow> string list" where
  "experience_lines text =
     section_lines experience_keywords (education_keywords @ skills_keywords) False
       (split_lines text)"

definition skills_lines :: "string \<Rightarrow> string list" where
  "skills_lines text =
     section_lines skills_keywords (education_keywords @ experience_keywords) False
       (split_lines text)"

definition project_lines :: "string \<Rightarrow> string list" where
  "project_lines text =
     section_lines [''project'']
       (education_keywords @ experience_keywords @ skills_keywords) False (split_lines text)"

section \<open>\<open>resume_parser.py\<close>: entries\<close>

definition degree_patterns :: "re list" where
  "degree_patterns =
     [alts (map liti [''bachelor'', ''master'', ''phd'', ''doctorate'', ''bs'', ''ms'', ''ba'',
                      ''ma'', ''mba'', ''degree'']),
      alts (map liti [''b.s.'', ''m.s.'', ''b.a.'', ''m.a.'', ''ph.d.''])]"

definition year_pattern :: re where
  "year_pattern = seqs [Bnd, Alt (lit ''19'') (lit ''20''), digit, digit, Bnd]"

text \<open>The body of the loop over \<open>education_lines\<close>: three tests, each sets one key.\<close>

definition education_line :: "pydict \<Rightarrow> string \<Rightarrow> pydict" where
  "education_line current_entry line =
     (let e1 = (if list_ex (\<lambda>pattern. re_search pattern line \<noteq> None) degree_patterns
                then dict_set current_entry ''degree'' line else current_entry);
          e2 = (if str_in ''university'' (lower line) \<or> str_in ''college'' (lower line)
                   \<or> str_in ''institute'' (lower line)
                then dict_set e1 ''institution'' line else e1);
          e3 = set_if_found e2 ''year'' (re_search year_pattern line)
      in e3)"

definition extract_education :: "string \<Rightarrow> pydict list" where
  "extract_education text =
     (let current_entry = foldl education_line [] (education_lines text)
      in if current_entry \<noteq> [] then [current_entry] else [])"

definition date_pattern :: re where
  "date_pattern =
     Alt (seqs [Bnd, Alt (liti ''19'') (liti ''20''), digit, digit, Star [Spc],
                Chr [LitI (CHR ''-'')], Star [Spc], Alt (liti ''19'') (liti ''20''), digit, digit])
         (seqs [Bnd, Alt (liti ''19'') (liti ''20''), digit, digit, Star [Spc],
                Chr [LitI (CHR ''-'')], Star [Spc], liti ''present''])"

definition experience_line :: "pydict \<Rightarrow> string \<Rightarrow> pydict" where
  "experience_line current_entry line =
     (let e1 = (if list_ex (\<lambda>word. str_in word (lower line))
                     [''engineer'', ''developer'', ''manager'', ''analyst'', ''specialist'',
                      ''coordinator'']
                then dict_set current_entry ''position'' line else current_entry);
          e2 = (if str_in ''inc'' (lower line) \<or> str_in ''corp'' (lower line)
                   \<or> str_in ''llc'' (lower line) \<or> str_in ''ltd'' (lower line)
                then dict_set e1 ''company'' line else e1);
          e3 = set_if_found e2 ''duration'' (re_search date_pattern line)
      in e3)"

definition extract_work_experience :: "string \<Rightarrow> pydict list" where
  "extract_work_experience text =
     (let current_entry = foldl experience_line [] (experience_lines text)
      in if current_entry \<noteq> [] then [current_entry] else [])"

text \<open>
  Skills: each line is split at the separators of the class \<^verbatim>\<open>[,;|...\n]\<close> that are code
  points of the model (comma, semicolon, bar, middle dot U+00B7, newline); an item is kept
  when, stripped, it has more than one character.
\<close>

definition skill_items :: "string \<Rightarrow> string list" where
  "skill_items line =
     filter (\<lambda>item. item \<noteq> [] \<and> length item > 1)
       (map strip (split_on [CHR '','', CHR '';'', CHR ''|'', CHR 0xB7, CHR 0x0A] line))"

definition extract_skills :: "string \<Rightarrow> string list" where
  "extract_skills text = concat (map skill_items (skills_lines text))"

text \<open>
  The loop over \<open>project_lines\<close>, with the project in progress as first argument. A
  finished project is appended and the project in progress starts again from \<open>{}\<close>.
  \<open>not current_project.get('name')\<close> holds when the key is missing or its value is empty.
\<close>

fun parse_projects :: "pydict \<Rightarrow> string list \<Rightarrow> pydict list" where
  "parse_projects current_project [] = []"
| "parse_projects current_project (line # ls) =
     (if line \<noteq> [] \<and> dict_get current_project ''name'' [] = []
      then parse_projects (dict_set current_project ''name'' line) ls
      else if line \<noteq> []
           then dict_set current_project ''description'' line # parse_projects [] ls
           else parse_projects current_project ls)"

definition extract_projects :: "string \<Rightarrow> pydict list" where
  "extract_projects text = parse_projects [] (project_lines text)"

definition parse_text_to_structured_data :: "string \<Rightarrow> resume_data" where
  "parse_text_to_structured_data text =
     \<lparr> personal_info = Some (extract_personal_info text),
       education = Some (extract_education text),
       work_experience = Some (extract_work_experience text),
       skills = Some (extract_skills text),
       projects = Some (extract_projects text),
       raw_text = Some text \<rparr>"

section \<open>\<open>resume_parser.py\<close>: \<open>parse_resume\<close>\<close>

text \<open>
  \<open>os.path.splitext\<close> on a POSIX path: the extension starts at the last dot of the last
  path component, unless that component has only dots before it. \<open>rfind\<close> gives the
  last index of a character, or \<open>-1\<close>.
\<close>

definition rfind :: "string \<Rightarrow> char \<Rightarrow> int" where
  "rfind p c = (case filter (\<lambda>k. p ! k = c) (rev [0 ..< length p]) of [] \<Rightarrow> - 1 | k # _ \<Rightarrow> int k)"

definition splitext :: "string \<Rightarrow> string \<times> string" where
  "splitext p =
     (let sepIndex = rfind p (CHR ''/'');
          dotIndex = rfind p (CHR ''.'')
      in if dotIndex > sepIndex
            \<and> list_ex (\<lambda>k. p ! k \<noteq> CHR ''.'') [nat (sepIndex + 1) ..< nat dotIndex]
         then (take (nat dotIndex) p, drop (nat dotIndex) p)
         else (p, []))"

text \<open>
  The exceptions of \<open>parse_resume\<close>: the \<open>ValueError\<close> it raises itself, with its
  message, and whatever the document libraries raise. A library is a function from the
  path to the texts of the pages (PyPDF2) or of the paragraphs (python-docx), or to the
  exception it raises; the two \<open>_extract\<close> functions log an exception and raise it again.
\<close>

datatype error = ValueError string | LibraryError string

type_synonym reader = "string \<Rightarrow> error + string list"

definition extract_pdf_text :: "reader \<Rightarrow> string \<Rightarrow> error + string" where
  "extract_pdf_text pdf_reader file_path =
     (case pdf_reader file_path of
        Inl e \<Rightarrow> Inl e
      | Inr pages \<Rightarrow> Inr (foldl (\<lambda>text page. text @ page @ [CHR 0x0A]) [] pages))"

definition extract_docx_text :: "reader \<Rightarrow> string \<Rightarrow> error + string" where
  "extract_docx_text document file_path =
     (case document file_path of
        Inl e \<Rightarrow> Inl e
      | Inr paragraphs \<Rightarrow> Inr (foldl (\<lambda>text paragraph. text @ paragraph @ [CHR 0x0A]) [] paragraphs))"

definition parse_resume :: "reader \<Rightarrow> reader \<Rightarrow> string \<Rightarrow> error + resume_data" where
  "parse_resume pdf_reader document file_path =
     (let file_extension = lower (snd (splitext file_path))
      in if file_extension = ''.pdf''
         then (case extract_pdf_text pdf_reader file_path of
                 Inl e \<Rightarrow> Inl e
               | Inr text \<Rightarrow> Inr (parse_text_to_structured_data text))
         else if file_extension \<in> set [''.docx'', ''.doc'']
         then (case extract_docx_text document file_path of
                 Inl e \<Rightarrow> Inl e
               | Inr text \<Rightarrow> Inr (parse_text_to_structured_data text))
         else Inl (ValueError (''Unsupported file format: '' @ file_extension)))"

text \<open>
  \<open>save_parsed_data\<close> hands the document to \<open>json.dump\<close> and a file; the encoder and
  the file are not code of the program and have no counterpart here.
\<close>

text \<open>A document has all six keys.\<close>

definition has_all_keys :: "resume_data \<Rightarrow> bool" where
  "has_all_keys d =
     (personal_info d \<noteq> None \<and> education d \<noteq> None \<and> work_experience d \<noteq> None
      \<and> skills d \<noteq> None \<and> projects d \<noteq> None \<and> raw_text d \<noteq> None)"

section \<open>Definitions that follow the words of the specification\<close>

text \<open>
  The five conditions on a name line: more than 2 characters, at most 4 tokens, no digit,
  no \<open>@\<close>, no \<open>phone\<close> in any case.
\<close>

definition name_test :: "string \<Rightarrow> bool" where
  "name_test line =
     (length line > 2 \<and> length (split_tokens line) \<le> 4 \<and> \<not> list_ex isdigit line
      \<and> \<not> str_in ''@'' line \<and> \<not> str_in ''phone'' (lower line))"

text \<open>
  Name extraction as the specification words it: the first line that passes the test
  among the first 5 lines that are not empty once trimmed.
\<close>

definition nonblank :: "string \<Rightarrow> bool" where
  "nonblank line = (line \<noteq> [])"

definition spec_extract_name :: "string \<Rightarrow> string option" where
  "spec_extract_name text =
     List.find name_test (take 5 (filter nonblank (map strip (split_lines text))))"

text \<open>
  Section capture in one expression, over the stripped lines: drop the lines before the
  first header and that header; keep lines up to the first line that has a keyword of
  \<open>stops\<close> and none of \<open>own\<close>; of these, leave out the empty lines and the headers.
\<close>

definition section_spec :: "string list \<Rightarrow> string list \<Rightarrow> string list \<Rightarrow> string list" where
  "section_spec own stops ls =
     filter (\<lambda>line. line \<noteq> [] \<and> \<not> has_keyword own line)
       (takeWhile (\<lambda>line. has_keyword own line \<or> \<not> has_keyword stops line)
          (drop 1 (dropWhile (\<lambda>line. \<not> has_keyword own line) (map strip ls))))"

text \<open>
  The keywords that end the education section according to the specification: those of
  the experience, skills, contact and project sections.
\<close>

definition spec_education_stops :: "string list" where
  "spec_education_stops =
     experience_keywords @ skills_keywords @ contact_keywords @ [''project'']"

text \<open>
  The shapes the specification names for a phone number, such as \<open>ddd-ddd-dddd\<close>: a
  string fits a template when it has the template's length, a decimal digit wherever the
  template has \<open>d\<close>, and the template's own character everywhere else.
\<close>

fun fits :: "atom list list \<Rightarrow> string \<Rightarrow> bool" where
  "fits [] [] = True"
| "fits (cls # clss) (c # cs) = (in_class cls c \<and> fits clss cs)"
| "fits _ _ = False"

definition template :: "string \<Rightarrow> atom list list" where
  "template s = map (\<lambda>c. if c = CHR ''d'' then [Dig] else [Lit c]) s"

section \<open>Sample data\<close>

definition sample_resume :: resume_data where
  "sample_resume =
     \<lparr> personal_info = Some [(''name'', ''John Smith''), (''phone'', ''555-123-4567'')],
       education = Some [],
       work_experience = Some [[(''position'', ''Software Engineer'')]],
       skills = Some [''Python'', ''Go'', ''Rust'', ''C++'', ''SQL'', ''Bash''],
       projects = Some [],
       raw_text = Some [] \<rparr>"

definition sample_graduate :: resume_data where
  "sample_graduate =
     \<lparr> personal_info = Some [],
       education = Some [[(''degree'', ''BS Computer Science''), (''year'', ''2020'')]],
       work_experience = Some [],
       skills = Some [],
       projects = Some [],
       raw_text = Some [] \<rparr>"

definition sample_pdf_reader :: reader where
  "sample_pdf_reader file_path = Inr [''John Smith'', ''john@x.com'']"

definition failing_reader :: reader where
  "failing_reader file_path = Inl (LibraryError ''cannot open'')"

section \<open>Facts about the string operations and dictionaries\<close>

lemma startswith_iff: "startswith s p = (\<exists>post. s = p @ post)"
  by (induction s p rule: startswith.induct) auto

text \<open>\<open>str_in sub s\<close> is the substring relation.\<close>

lemma str_in_iff: "str_in sub s = (\<exists>pre post. s = pre @ sub @ post)"
proof (induction s)
  case Nil
  then show ?case by auto
next
  case (Cons c cs)
  show ?case
  proof
    assume "str_in sub (c # cs)"
    then consider "startswith (c # cs) sub" | "str_in sub cs" by auto
    then show "\<exists>pre post. c # cs = pre @ sub @ post"
    proof cases
      case 1
      then obtain post where "c # cs = sub @ post" by (auto simp: startswith_iff)
      then have "c # cs = [] @ sub @ post" by simp
      then show ?thesis by blast
    next
      case 2
      then obtain pre post where "cs = pre @ sub @ post" using Cons.IH by auto
      then have "c # cs = (c # pre) @ sub @ post" by simp
      then show ?thesis by blast
    qed
  next
    assume "\<exists>pre post. c # cs = pre @ sub @ post"
    then obtain pre post where e: "c # cs = pre @ sub @ post" by blast
    show "str_in sub (c # cs)"
    proof (cases pre)
      case Nil
      with e have "startswith (c # cs) sub" by (auto simp: startswith_iff)
      then show ?thesis by simp
    next
      case (Cons a pre')
      with e have "cs = pre' @ sub @ post" by simp
      then have "str_in sub cs" using Cons.IH by blast
      then show ?thesis by simp
    qed
  qed
qed

lemma str_in_suffix: "str_in (a @ b) s \<Longrightarrow> str_in b s"
proof -
  assume "str_in (a @ b) s"
  then obtain pre post where "s = pre @ (a @ b) @ post" by (auto simp: str_in_iff)
  then have "s = (pre @ a) @ b @ post" by simp
  then show ?thesis unfolding str_in_iff by blast
qed

text \<open>The second test of the name branch, \<open>'full name' in question_lower\<close>, adds nothing.\<close>

lemma full_name_is_name: "str_in ''full name'' s \<Longrightarrow> str_in ''name'' s"
  using str_in_suffix [of "''full ''" "''name''" s] by simp

lemma map_of_dict_set:
  "map_of (dict_set d k v) k' = (if k' = k then Some v else map_of d k')"
  by (induction d) auto

lemma map_of_set_if_found:
  "map_of (set_if_found d k m) k' =
     (if k' = k then (case m of None \<Rightarrow> map_of d k | Some v \<Rightarrow> Some v) else map_of d k')"
  by (cases m) (auto simp: set_if_found_def map_of_dict_set)

section \<open>The direct resolver and the classifier\<close>

lemma list_ex_abstract_keywords:
  "list_ex P abstract_keywords =
     (P ''why'' \<or> P ''describe'' \<or> P ''explain'' \<or> P ''tell us'' \<or> P ''what motivates''
      \<or> P ''your greatest'' \<or> P ''how would you'' \<or> P ''what interests you''
      \<or> P ''your goals'' \<or> P ''your passion'' \<or> P ''cover letter''
      \<or> P ''personal statement'' \<or> P ''objective'' \<or> P ''summary'')"
  unfolding abstract_keywords_def by simp

text \<open>
  C1. A question whose lowercased form contains \<open>name\<close> is answered by the name branch:
  the result is the \<open>name\<close> entry of the personal information (the empty string when
  there is none), whatever else the question contains and whatever the other entries of
  the resume are; no later branch has a say, the email branch included. The same order
  holds further down: a branch answers when its keyword is found and no keyword of an
  earlier branch is (for the four list branches, when moreover the list has a first entry).
\<close>

theorem get_direct_answer_first_match:
  "(let ql = lower question;
        pinfo = get_key (personal_info r) [];
        edu = get_key (education r) [];
        experience = get_key (work_experience r) [];
        answer = get_direct_answer question r;
        personal = (str_in ''name'' ql \<or> str_in ''email'' ql \<or> str_in ''phone'' ql
                    \<or> str_in ''linkedin'' ql \<or> str_in ''github'' ql);
        edu_kw = (str_in ''university'' ql \<or> str_in ''school'' ql \<or> str_in ''degree'' ql);
        exp_kw = (str_in ''company'' ql \<or> str_in ''employer'' ql
                    \<or> str_in ''position'' ql \<or> str_in ''title'' ql)
    in (str_in ''name'' ql \<longrightarrow> answer = Some (dict_get pinfo ''name'' []))
     \<and> (\<not> str_in ''name'' ql \<and> str_in ''email'' ql
          \<longrightarrow> answer = Some (dict_get pinfo ''email'' []))
     \<and> (\<not> str_in ''name'' ql \<and> \<not> str_in ''email'' ql \<and> str_in ''phone'' ql
          \<longrightarrow> answer = Some (dict_get pinfo ''phone'' []))
     \<and> (\<not> str_in ''name'' ql \<and> \<not> str_in ''email'' ql \<and> \<not> str_in ''phone'' ql
          \<and> str_in ''linkedin'' ql
          \<longrightarrow> answer = Some (dict_get pinfo ''linkedin'' []))
     \<and> (\<not> str_in ''name'' ql \<and> \<not> str_in ''email'' ql \<and> \<not> str_in ''phone'' ql
          \<and> \<not> str_in ''linkedin'' ql \<and> str_in ''github'' ql
          \<longrightarrow> answer = Some (dict_get pinfo ''github'' []))
     \<and> (\<not> personal \<and> (str_in ''university'' ql \<or> str_in ''school'' ql) \<and> edu \<noteq> []
          \<longrightarrow> answer = Some (dict_get (hd edu) ''institution'' []))
     \<and> (\<not> personal \<and> \<not> str_in ''university'' ql \<and> \<not> str_in ''school'' ql
          \<and> str_in ''degree'' ql \<and> edu \<noteq> []
          \<longrightarrow> answer = Some (dict_get (hd edu) ''degree'' []))
     \<and> (\<not> personal \<and> \<not> edu_kw \<and> (str_in ''company'' ql \<or> str_in ''employer'' ql)
          \<and> experience \<noteq> []
          \<longrightarrow> answer = Some (dict_get (hd experience) ''company'' []))
     \<and> (\<not> personal \<and> \<not> edu_kw \<and> \<not> str_in ''company'' ql \<and> \<not> str_in ''employer'' ql
          \<and> (str_in ''position'' ql \<or> str_in ''title'' ql) \<and> experience \<noteq> []
          \<longrightarrow> answer = Some (dict_get (hd experience) ''position'' []))
     \<and> (\<not> personal \<and> \<not> edu_kw \<and> \<not> exp_kw \<and> str_in ''skill'' ql
          \<longrightarrow> answer = Some (join '', '' (take 5 (get_key (skills r) [])))))"
  unfolding Let_def get_direct_answer_def answer_university_def answer_degree_def
    answer_company_def answer_position_def answer_skill_def
  using full_name_is_name [of "lower question"]
  by (auto split: list.splits)

theorem get_direct_answer_first_match_witness:
  "str_in ''name'' (lower ''Full name and email'')
   \<and> str_in ''email'' (lower ''Full name and email'')
   \<and> get_direct_answer ''Full name and email'' sample_resume = Some ''John Smith''
   \<and> get_direct_answer ''Phone or LinkedIn'' sample_resume = Some ''555-123-4567''
   \<and> get_direct_answer ''Job title and skills'' sample_resume = Some ''Software Engineer''
   \<and> get_direct_answer ''Degree and school'' sample_graduate = Some []
   \<and> get_direct_answer ''Top skills'' sample_resume = Some ''Python, Go, Rust, C++, SQL''
   \<and> get_direct_answer ''Email or phone'' sample_resume = Some []"
proof -
  have l: "lower ''Full name and email'' = ''full name and email''"
    "lower ''Email or phone'' = ''email or phone''"
    "lower ''Phone or LinkedIn'' = ''phone or linkedin''"
    "lower ''Job title and skills'' = ''job title and skills''"
    "lower ''Degree and school'' = ''degree and school''"
    "lower ''Top skills'' = ''top skills''"
    by code_simp+
  have 1: "get_direct_answer ''Full name and email'' sample_resume = Some ''John Smith''"
    using get_direct_answer_first_match [of "''Full name and email''" sample_resume]
    unfolding Let_def l sample_resume_def get_key_def dict_get_def by simp
  have 2: "get_direct_answer ''Phone or LinkedIn'' sample_resume = Some ''555-123-4567''"
    using get_direct_answer_first_match [of "''Phone or LinkedIn''" sample_resume]
    unfolding Let_def l sample_resume_def get_key_def dict_get_def by simp
  have 3: "get_direct_answer ''Job title and skills'' sample_resume = Some ''Software Engineer''"
    using get_direct_answer_first_match [of "''Job title and skills''" sample_resume]
    unfolding Let_def l sample_resume_def get_key_def dict_get_def by simp
  have 4: "get_direct_answer ''Degree and school'' sample_graduate = Some []"
    using get_direct_answer_first_match [of "''Degree and school''" sample_graduate]
    unfolding Let_def l sample_graduate_def get_key_def dict_get_def by simp
  have 5: "get_direct_answer ''Top skills'' sample_resume = Some ''Python, Go, Rust, C++, SQL''"
    using get_direct_answer_first_match [of "''Top skills''" sample_resume]
    unfolding Let_def l sample_resume_def get_key_def dict_get_def by simp
  have 6: "get_direct_answer ''Email or phone'' sample_resume = Some []"
    using get_direct_answer_first_match [of "''Email or phone''" sample_resume]
    unfolding Let_def l sample_resume_def get_key_def dict_get_def by simp
  have n: "str_in ''name'' (lower ''Full name and email'')"
    "str_in ''email'' (lower ''Full name and email'')"
    unfolding l by simp_all
  from 1 2 3 4 5 6 n show ?thesis by simp
qed

text \<open>
  C2. \<open>is_abstract_question\<close> holds exactly when the field type is \<open>textarea\<close>, or the
  question has more than 50 characters, or the lowercased question contains one of the
  fourteen keywords. The source reads its two parameters and nothing else (\<open>self\<close> is not
  used), so the model is a function of the question and the field type alone, and two
  calls with equal arguments give equal results.
\<close>

theorem is_abstract_question_iff:
  "is_abstract_question question field_type =
     (field_type = ''textarea'' \<or> 50 < length question
      \<or> str_in ''why'' (lower question) \<or> str_in ''describe'' (lower question)
      \<or> str_in ''explain'' (lower question) \<or> str_in ''tell us'' (lower question)
      \<or> str_in ''what motivates'' (lower question) \<or> str_in ''your greatest'' (lower question)
      \<or> str_in ''how would you'' (lower question) \<or> str_in ''what interests you'' (lower question)
      \<or> str_in ''your goals'' (lower question) \<or> str_in ''your passion'' (lower question)
      \<or> str_in ''cover letter'' (lower question) \<or> str_in ''personal statement'' (lower question)
      \<or> str_in ''objective'' (lower question) \<or> str_in ''summary'' (lower question))
   \<and> (question' = question \<and> field_type' = field_type \<longrightarrow>
        is_abstract_question question' field_type' = is_abstract_question question field_type)"
  unfolding is_abstract_question_def Let_def list_ex_abstract_keywords by auto

theorem is_abstract_question_witness:
  "is_abstract_question ''Why do you want this job?'' ''text''
   \<and> \<not> is_abstract_question ''Email'' ''email''
   \<and> is_abstract_question ''Email'' ''textarea''
   \<and> is_abstract_question ''Anything you would like us to know about your application'' ''text''"
proof -
  have a: "lower ''Why do you want this job?'' = ''why do you want this job?''" by code_simp
  have b: "lower ''Email'' = ''email''" by code_simp
  show ?thesis
    using is_abstract_question_iff
        [of "''Why do you want this job?''" "''text''" "''Why do you want this job?''" "''text''"]
      is_abstract_question_iff [of "''Email''" "''email''" "''Email''" "''email''"]
      is_abstract_question_iff [of "''Email''" "''textarea''" "''Email''" "''textarea''"]
      is_abstract_question_iff
        [of "''Anything you would like us to know about your application''" "''text''"
            "''Anything you would like us to know about your application''" "''text''"]
    unfolding a b by simp
qed



section \<open>Regular expression search\<close>

lemma matches_anywhere_iff:
  "matches_anywhere r t = (\<exists>i \<le> length t. ends r t i \<noteq> [])"
  unfolding matches_anywhere_def list_ex_iff by (auto simp del: upt_Suc simp: less_Suc_eq_le)




lemma ends_chrs:
  "ends (foldr Seq (map Chr clss) r) t i =
     (if fits clss (take (length clss) (drop i t)) then ends r t (i + length clss) else [])"
proof (induction clss arbitrary: i)
  case Nil
  then show ?case by simp
next
  case (Cons cls clss)
  show ?case
  proof (cases "i < length t")
    case False
    then show ?thesis by simp
  next
    case True
    then have d: "drop i t = t ! i # drop (Suc i) t" by (simp add: Cons_nth_drop_Suc)
    show ?thesis using True by (simp add: Cons.IH d)
  qed
qed



lemma phone_dashed_form:
  "phone_dashed = Seq Bnd (foldr Seq (map Chr (template ''ddd-ddd-dddd'')) (Seq Bnd Eps))"
  by (simp add: phone_dashed_def seqs_def digit_def template_def)

lemma phone_ten_digits_form:
  "phone_ten_digits = Seq Bnd (foldr Seq (map Chr (template ''dddddddddd'')) (Seq Bnd Eps))"
  by (simp add: phone_ten_digits_def seqs_def digit_def template_def)





text \<open>
  When the first and the third phone pattern match: at a position with a word boundary,
  where the next characters fit the shape and a word boundary follows. Digits that are
  part of a longer run of word characters are no match.
\<close>

lemma fixed_matches_iff:
  "matches_anywhere (Seq Bnd (foldr Seq (map Chr clss) (Seq Bnd Eps))) t =
     (\<exists>i \<le> length t. boundary t i \<and> fits clss (take (length clss) (drop i t))
          \<and> boundary t (i + length clss))"
  unfolding matches_anywhere_iff by (auto simp: ends_chrs split: if_splits)

lemma phone_dashed_matches_iff:
  "matches_anywhere phone_dashed t =
     (\<exists>i \<le> length t. boundary t i \<and> fits (template ''ddd-ddd-dddd'') (take 12 (drop i t))
          \<and> boundary t (i + 12))"
proof -
  have l: "length (template ''ddd-ddd-dddd'') = 12" by (simp add: template_def)
  show ?thesis unfolding phone_dashed_form fixed_matches_iff l ..
qed

lemma phone_ten_digits_matches_iff:
  "matches_anywhere phone_ten_digits t =
     (\<exists>i \<le> length t. boundary t i \<and> fits (template ''dddddddddd'') (take 10 (drop i t))
          \<and> boundary t (i + 10))"
proof -
  have l: "length (template ''dddddddddd'') = 10" by (simp add: template_def)
  show ?thesis unfolding phone_ten_digits_form fixed_matches_iff l ..
qed

lemma phone_patterns_are_anchored:
  "\<not> matches_anywhere phone_ten_digits ''12345678901''
   \<and> \<not> matches_anywhere phone_dashed ''x555-123-4567''"
  by code_simp

text \<open>
  The second phone pattern starts with \<^verbatim>\<open>\b\(\<close>: a word character has to stand
  right before the opening parenthesis. A number in parentheses at the start of the text,
  or after a space, is not a match of it.
\<close>

lemma phone_parens_needs_word_before:
  "re_search phone_parens ''(555) 123-4567'' = None
   \<and> re_search phone_parens ''Tel (555) 123-4567'' = None
   \<and> re_search phone_parens ''Tel(555) 123-4567'' = Some ''(555) 123-4567''"
  by code_simp

section \<open>Personal information\<close>

lemma find_name_find: "find_name ls = List.find name_test (map strip ls)"
  by (induction ls) (auto simp: name_test_def Let_def)

text \<open>
  C3, as the specification states it, fails: the candidate lines are not the first 5
  lines that are non-empty once trimmed, but the first 5 lines of the text, blank lines
  counted. After five blank lines a name on the sixth line is not found.
\<close>

theorem name_window_counterexample:
  "spec_extract_name ''\<newline>\<newline>\<newline>\<newline>\<newline>John Smith'' = Some ''John Smith''
   \<and> map_of (extract_personal_info ''\<newline>\<newline>\<newline>\<newline>\<newline>John Smith'') ''name'' = None"
  by code_simp

text \<open>
  C3, amended. The name is the first line that passes the five conditions among the first
  5 lines of the raw text, each trimmed (a blank line takes one of the 5 places and never
  passes); when none of the 5 passes, the key \<open>name\<close> is not set.
\<close>

theorem name_first_five_lines:
  "map_of (extract_personal_info text) ''name''
     = List.find name_test (map strip (take 5 (split_lines text)))"
  unfolding extract_personal_info_def Let_def
  by (simp add: map_of_set_if_found find_name_find split: option.splits)

theorem name_first_five_lines_witness:
  "map_of (extract_personal_info ''Resume 2024\<newline>\<newline>  John Smith \<newline>john@x.com'') ''name''
     = Some ''John Smith''
   \<and> map_of (extract_personal_info ''a1\<newline>b2\<newline>c3\<newline>d4\<newline>e5\<newline>John Smith'') ''name'' = None"
proof -
  have a: "List.find name_test
             (map strip (take 5 (split_lines ''Resume 2024\<newline>\<newline>  John Smith \<newline>john@x.com'')))
           = Some ''John Smith''"
    by code_simp
  have b: "List.find name_test
             (map strip (take 5 (split_lines ''a1\<newline>b2\<newline>c3\<newline>d4\<newline>e5\<newline>John Smith'')))
           = None"
    by code_simp
  show ?thesis
    using name_first_five_lines [of "''Resume 2024\<newline>\<newline>  John Smith \<newline>john@x.com''"]
      name_first_five_lines [of "''a1\<newline>b2\<newline>c3\<newline>d4\<newline>e5\<newline>John Smith''"]
    unfolding a b by simp
qed





section \<open>Section capture\<close>

lemma section_lines_on:
  "section_lines own stops True ls =
     filter (\<lambda>line. line \<noteq> [] \<and> \<not> has_keyword own line)
       (takeWhile (\<lambda>line. has_keyword own line \<or> \<not> has_keyword stops line) (map strip ls))"
  by (induction ls) (auto simp: Let_def)

lemma section_lines_off:
  "section_lines own stops False ls = section_spec own stops ls"
  unfolding section_spec_def
  by (induction ls) (auto simp: Let_def section_lines_on)

text \<open>
  C4, as the specification states it, fails: in the education section a line with a
  contact keyword (\<open>email\<close>) or with \<open>project\<close> is one of the lines the specification says
  end the section, yet it is captured and the lines after it are captured too. A line
  with an experience keyword (\<open>work\<close>) that also has an education keyword is skipped as
  a header and the capture goes on after it.
\<close>

theorem education_stops_counterexample:
  "has_keyword spec_education_stops ''Email: a@b.c''
   \<and> has_keyword spec_education_stops ''My project''
   \<and> education_lines ''Education\<newline>Email: a@b.c\<newline>My project\<newline>State''
       = [''Email: a@b.c'', ''My project'', ''State'']
   \<and> has_keyword spec_education_stops ''University work''
   \<and> education_lines ''Education\<newline>University work\<newline>State'' = [''State'']"
  by code_simp

text \<open>
  C4, amended. With the flag on, the section ends at the first line that has a keyword of
  the sets the extractor tests (for education: experience and skills; for experience:
  education and skills; for skills: education and experience; for projects: education,
  experience and skills) and no keyword of the section itself; that line is not captured.
  Contact keywords end no section, and \<open>project\<close> ends none. A line with a keyword of
  the section itself is skipped as a header. Blank lines are skipped and end nothing (the
  empty line has no keyword). Without an ending line the capture runs to the end of the
  text.
\<close>

theorem section_capture:
  "education_lines text
     = section_spec education_keywords (experience_keywords @ skills_keywords) (split_lines text)
   \<and> experience_lines text
     = section_spec experience_keywords (education_keywords @ skills_keywords) (split_lines text)
   \<and> skills_lines text
     = section_spec skills_keywords (education_keywords @ experience_keywords) (split_lines text)
   \<and> project_lines text
     = section_spec [''project''] (education_keywords @ experience_keywords @ skills_keywords)
         (split_lines text)
   \<and> \<not> has_keyword (education_keywords @ experience_keywords @ skills_keywords) []"
  unfolding education_lines_def experience_lines_def skills_lines_def project_lines_def
    section_lines_off
  by (simp add: has_keyword_def lower_def education_keywords_def experience_keywords_def
      skills_keywords_def)

theorem section_capture_witness:
  "education_lines ''Name\<newline>Education\<newline>BS Physics\<newline>\<newline>Tech Institute\<newline>Skills\<newline>Python''
     = [''BS Physics'', ''Tech Institute'']
   \<and> project_lines ''Projects\<newline>Compiler\<newline>\<newline>A small compiler''
     = [''Compiler'', ''A small compiler'']"
proof -
  have a: "section_spec education_keywords (experience_keywords @ skills_keywords)
             (split_lines ''Name\<newline>Education\<newline>BS Physics\<newline>\<newline>Tech Institute\<newline>Skills\<newline>Python'')
           = [''BS Physics'', ''Tech Institute'']"
    by code_simp
  have b: "section_spec [''project''] (education_keywords @ experience_keywords @ skills_keywords)
             (split_lines ''Projects\<newline>Compiler\<newline>\<newline>A small compiler'')
           = [''Compiler'', ''A small compiler'']"
    by code_simp
  show ?thesis
    using section_capture [of "''Name\<newline>Education\<newline>BS Physics\<newline>\<newline>Tech Institute\<newline>Skills\<newline>Python''"]
      section_capture [of "''Projects\<newline>Compiler\<newline>\<newline>A small compiler''"]
    unfolding a b by simp
qed

section \<open>Education and work experience entries\<close>











section \<open>Projects\<close>

lemma section_lines_nonempty: "[] \<notin> set (section_lines own stops f ls)"
  by (induction ls arbitrary: f) (auto simp: Let_def)

lemma parse_projects_pairs:
  "[] \<notin> set ls \<Longrightarrow>
     (\<forall>p \<in> set (parse_projects [] ls). \<exists>n d. n \<noteq> [] \<and> d \<noteq> [] \<and> p = [(''name'', n), (''description'', d)])
     \<and> concat (map (map snd) (parse_projects [] ls)) = take (2 * (length ls div 2)) ls
     \<and> length (parse_projects [] ls) = length ls div 2"
proof (induction ls rule: induct_list012)
  case 1
  then show ?case by simp
next
  case (2 x)
  then show ?case by (simp add: dict_get_def)
next
  case (3 x y zs)
  then have ne: "x \<noteq> []" "y \<noteq> []" "[] \<notin> set zs" by auto
  have step: "parse_projects [] (x # y # zs) = [(''name'', x), (''description'', y)] # parse_projects [] zs"
    using ne by (simp add: dict_get_def)
  from 3 ne show ?case unfolding step by auto
qed


text \<open>
  C6. Every project that \<open>_extract_projects\<close> returns has exactly the keys \<open>name\<close> and
  \<open>description\<close>, both with a non-empty value. The values of the projects, in order, are
  the lines of the section in order, two per project, without the last line when their
  number is odd: a name with no line after it is not returned.
\<close>

theorem projects_have_name_and_description:
  "(\<forall>p \<in> set (extract_projects text).
      \<exists>n d. n \<noteq> [] \<and> d \<noteq> [] \<and> p = [(''name'', n), (''description'', d)])
   \<and> concat (map (map snd) (extract_projects text))
       = take (2 * (length (project_lines text) div 2)) (project_lines text)
   \<and> length (extract_projects text) = length (project_lines text) div 2"
  unfolding extract_projects_def project_lines_def
  by (rule parse_projects_pairs) (rule section_lines_nonempty)

theorem projects_have_name_and_description_witness:
  "project_lines ''Projects\<newline>Compiler\<newline>A small compiler\<newline>Orphan''
     = [''Compiler'', ''A small compiler'', ''Orphan'']
   \<and> extract_projects ''Projects\<newline>Compiler\<newline>A small compiler\<newline>Orphan''
     = [[(''name'', ''Compiler''), (''description'', ''A small compiler'')]]
   \<and> length (extract_projects ''Projects\<newline>Compiler\<newline>A small compiler\<newline>Orphan'') = 1"
proof -
  have a: "project_lines ''Projects\<newline>Compiler\<newline>A small compiler\<newline>Orphan''
     = [''Compiler'', ''A small compiler'', ''Orphan'']"
    by code_simp
  have b: "extract_projects ''Projects\<newline>Compiler\<newline>A small compiler\<newline>Orphan''
     = [[(''name'', ''Compiler''), (''description'', ''A small compiler'')]]"
    by code_simp
  from projects_have_name_and_description
         [of "''Projects\<newline>Compiler\<newline>A small compiler\<newline>Orphan''"]
  have "length (extract_projects ''Projects\<newline>Compiler\<newline>A small compiler\<newline>Orphan'')
          = length (project_lines ''Projects\<newline>Compiler\<newline>A small compiler\<newline>Orphan'') div 2"
    by blast
  then have "length (extract_projects ''Projects\<newline>Compiler\<newline>A small compiler\<newline>Orphan'') = 1"
    unfolding a by simp
  with a b show ?thesis by simp
qed

section \<open>\<open>parse_resume\<close>\<close>

lemma foldl_append_lines:
  "foldl (\<lambda>text page. text @ page @ [CHR 0x0A]) acc pages
     = acc @ concat (map (\<lambda>page. page @ [CHR 0x0A]) pages)"
  by (induction pages arbitrary: acc) auto

lemma has_all_keys_parse: "has_all_keys (parse_text_to_structured_data text)"
  by (simp add: has_all_keys_def parse_text_to_structured_data_def)

text \<open>
  C8. \<open>parse_resume\<close> raises \<open>ValueError\<close> for every path whose lowercased extension is
  none of \<open>.pdf\<close>, \<open>.docx\<close>, \<open>.doc\<close>. For these three it either raises what the
  document library raises, or returns the document built from the whole text, which has
  all six keys. Whatever the path, a returned document has all six keys: there is no
  partial result.
\<close>

theorem parse_resume_all_or_nothing:
  "(lower (snd (splitext file_path)) \<notin> {''.pdf'', ''.docx'', ''.doc''} \<longrightarrow>
      parse_resume pdf_reader document file_path
        = Inl (ValueError (''Unsupported file format: '' @ lower (snd (splitext file_path)))))
   \<and> (lower (snd (splitext file_path)) \<in> {''.pdf'', ''.docx'', ''.doc''} \<longrightarrow>
        (\<exists>e. parse_resume pdf_reader document file_path = Inl e
              \<and> (pdf_reader file_path = Inl e \<or> document file_path = Inl e))
        \<or> (\<exists>d. parse_resume pdf_reader document file_path = Inr d \<and> has_all_keys d))
   \<and> (\<forall>d. parse_resume pdf_reader document file_path = Inr d \<longrightarrow> has_all_keys d)
   \<and> (\<forall>e. lower (snd (splitext file_path)) = ''.pdf'' \<and> pdf_reader file_path = Inl e \<longrightarrow>
        parse_resume pdf_reader document file_path = Inl e)
   \<and> (\<forall>e. lower (snd (splitext file_path)) \<in> {''.docx'', ''.doc''} \<and> document file_path = Inl e \<longrightarrow>
        parse_resume pdf_reader document file_path = Inl e)
   \<and> (\<forall>pages. lower (snd (splitext file_path)) = ''.pdf'' \<and> pdf_reader file_path = Inr pages \<longrightarrow>
        parse_resume pdf_reader document file_path
          = Inr (parse_text_to_structured_data (concat (map (\<lambda>page. page @ [CHR 0x0A]) pages))))
   \<and> (\<forall>paragraphs. lower (snd (splitext file_path)) \<in> {''.docx'', ''.doc''}
          \<and> document file_path = Inr paragraphs \<longrightarrow>
        parse_resume pdf_reader document file_path
          = Inr (parse_text_to_structured_data
                   (concat (map (\<lambda>paragraph. paragraph @ [CHR 0x0A]) paragraphs))))"
  unfolding parse_resume_def Let_def extract_pdf_text_def extract_docx_text_def
  by (auto simp: has_all_keys_parse foldl_append_lines split: sum.splits)

theorem parse_resume_all_or_nothing_witness:
  "parse_resume sample_pdf_reader failing_reader ''cv/resume.txt''
     = Inl (ValueError ''Unsupported file format: .txt'')
   \<and> parse_resume sample_pdf_reader failing_reader ''resume''
     = Inl (ValueError ''Unsupported file format: '')
   \<and> parse_resume sample_pdf_reader failing_reader ''cv/resume.DOCX'' = Inl (LibraryError ''cannot open'')
   \<and> parse_resume sample_pdf_reader failing_reader ''cv/resume.PDF''
     = Inr (parse_text_to_structured_data ''John Smith\<newline>john@x.com\<newline>'')
   \<and> has_all_keys (parse_text_to_structured_data ''John Smith\<newline>john@x.com\<newline>'')"
proof -
  have e: "lower (snd (splitext ''cv/resume.txt'')) = ''.txt''"
    "lower (snd (splitext ''resume'')) = []"
    "lower (snd (splitext ''cv/resume.DOCX'')) = ''.docx''"
    "lower (snd (splitext ''cv/resume.PDF'')) = ''.pdf''"
    by code_simp+
  have r: "sample_pdf_reader ''cv/resume.PDF'' = Inr [''John Smith'', ''john@x.com'']"
    "failing_reader ''cv/resume.DOCX'' = Inl (LibraryError ''cannot open'')"
    by (simp_all add: sample_pdf_reader_def failing_reader_def)
  have 1: "parse_resume sample_pdf_reader failing_reader ''cv/resume.txt''
     = Inl (ValueError ''Unsupported file format: .txt'')"
    using parse_resume_all_or_nothing [of "''cv/resume.txt''" sample_pdf_reader failing_reader]
    unfolding e by simp
  have 2: "parse_resume sample_pdf_reader failing_reader ''resume''
     = Inl (ValueError ''Unsupported file format: '')"
    using parse_resume_all_or_nothing [of "''resume''" sample_pdf_reader failing_reader]
    unfolding e by simp
  have 3: "parse_resume sample_pdf_reader failing_reader ''cv/resume.DOCX''
     = Inl (LibraryError ''cannot open'')"
    using parse_resume_all_or_nothing [of "''cv/resume.DOCX''" sample_pdf_reader failing_reader] r
    unfolding e by simp
  have 4: "parse_resume sample_pdf_reader failing_reader ''cv/resume.PDF''
     = Inr (parse_text_to_structured_data ''John Smith\<newline>john@x.com\<newline>'')"
    using parse_resume_all_or_nothing [of "''cv/resume.PDF''" sample_pdf_reader failing_reader] r
    unfolding e by simp
  have 5: "has_all_keys (parse_text_to_structured_data ''John Smith\<newline>john@x.com\<newline>'')"
    using parse_resume_all_or_nothing [of "''cv/resume.PDF''" sample_pdf_reader failing_reader] 4
    by simp
  from 1 2 3 4 5 show ?thesis by simp
qed


end
